theory Spec2Isabelle
  imports Main
begin

section \<open>The gateway server (package api)\<close>

subsection \<open>Response types (internal/api/types.go)\<close>

record ModelInfo =
  ID :: string
  Object :: string
  Created :: int
  OwnedBy :: string

record ModelList =
  ListObject :: string
  Data :: "ModelInfo list"

record ErrorDetail =
  Message :: string
  Type :: string
  Code :: string

record ErrorResponse =
  Error :: ErrorDetail

text \<open>
  The values the handlers hand to \<^verbatim>\<open>json.NewEncoder(w).Encode\<close>, and the raw bytes
  they copy. The encoding itself is the library's; a payload stands for its JSON text.
\<close>

datatype payload =
    JModelList ModelList
  | JError ErrorResponse
  | JRootInfo string
  | Raw string

subsection \<open>Requests, the response writer and the engine behind the gateway\<close>

record Request =
  Method :: string
  URLPath :: string
  ReqBody :: string

text \<open>
  \<^verbatim>\<open>http.ResponseWriter\<close> as the handlers use it and as the server answers from it:
  \<^verbatim>\<open>Header().Set\<close> updates the header map, the first \<^verbatim>\<open>WriteHeader\<close> fixes the status
  and the headers that are sent, and a write before any \<^verbatim>\<open>WriteHeader\<close> sends status
  200 first. \<open>body\<close> is what reaches the client: the server drops what a handler
  writes when the request's method is HEAD (\<open>head\<close>) and when the status allows no
  body (1xx, 204, 304).
\<close>

record ResponseWriter =
  Header :: "string \<rightharpoonup> string"
  status :: "int option"
  sent :: "string \<rightharpoonup> string"
  body :: "payload list"
  head :: bool

definition newResponseWriter :: ResponseWriter where
  "newResponseWriter =
     \<lparr>Header = Map.empty, status = None, sent = Map.empty, body = [], head = False\<rparr>"

definition bodyAllowedForStatus :: "int \<Rightarrow> bool" where
  "bodyAllowedForStatus code = (\<not> (100 \<le> code \<and> code \<le> 199) \<and> code \<noteq> 204 \<and> code \<noteq> 304)"

definition HeaderSet :: "string \<Rightarrow> string \<Rightarrow> ResponseWriter \<Rightarrow> ResponseWriter" where
  "HeaderSet k v w = w\<lparr>Header := (Header w)(k \<mapsto> v)\<rparr>"

definition WriteHeader :: "int \<Rightarrow> ResponseWriter \<Rightarrow> ResponseWriter" where
  "WriteHeader code w =
     (case status w of
        None \<Rightarrow> w\<lparr>status := Some code, sent := Header w\<rparr>
      | Some _ \<Rightarrow> w)"

definition Write :: "payload \<Rightarrow> ResponseWriter \<Rightarrow> ResponseWriter" where
  "Write p w =
     (let w1 = WriteHeader 200 w
      in if head w1 then w1
         else (case status w1 of
                 None \<Rightarrow> w1\<lparr>body := body w1 @ [p]\<rparr>
               | Some code \<Rightarrow>
                   if bodyAllowedForStatus code then w1\<lparr>body := body w1 @ [p]\<rparr> else w1))"

text \<open>
  The world a handler runs in: the wall clock in Unix seconds (\<^verbatim>\<open>time.Now().Unix()\<close>),
  what the engine answers to a request sent to it, and the list of requests that were
  sent to the engine so far (method and URL), newest last.
\<close>

datatype engine_reply = Unreachable | Reply int string

record World =
  clock :: int
  engine :: "string \<Rightarrow> string \<Rightarrow> engine_reply"
  contacted :: "(string \<times> string) list"

type_synonym handler = "World \<Rightarrow> ResponseWriter \<Rightarrow> Request \<Rightarrow> World \<times> ResponseWriter"

definition StatusOK :: int where "StatusOK = 200"
definition StatusNoContent :: int where "StatusNoContent = 204"
definition StatusNotFound :: int where "StatusNotFound = 404"
definition StatusMethodNotAllowed :: int where "StatusMethodNotAllowed = 405"
definition StatusBadGateway :: int where "StatusBadGateway = 502"
definition StatusServiceUnavailable :: int where "StatusServiceUnavailable = 503"

definition MethodPost :: string where "MethodPost = ''POST''"
definition MethodOptions :: string where "MethodOptions = ''OPTIONS''"
definition MethodHead :: string where "MethodHead = ''HEAD''"

subsection \<open>The server (NewServer, ListenAndServe and the handlers)\<close>

record ReverseProxy =
  target :: string
  FlushInterval :: int

record Server =
  port :: int
  backendURL :: string
  modelName :: string
  proxy :: ReverseProxy

definition Millisecond :: int where "Millisecond = 1000000"

definition NewServer :: "int \<Rightarrow> string \<Rightarrow> string \<Rightarrow> Server" where
  "NewServer p url name =
     \<lparr>port = p, backendURL = url, modelName = name,
      proxy = \<lparr>target = url, FlushInterval = 50 * Millisecond\<rparr>\<rparr>"

definition writeError :: "ResponseWriter \<Rightarrow> int \<Rightarrow> string \<Rightarrow> string \<Rightarrow> ResponseWriter" where
  "writeError w code msg errType =
     Write (JError \<lparr>Error = \<lparr>Message = msg, Type = errType, Code = []\<rparr>\<rparr>)
       (WriteHeader code (HeaderSet ''Content-Type'' ''application/json'' w))"

text \<open>
  \<^verbatim>\<open>s.proxy.ServeHTTP\<close> is the library's reverse proxy: it sends the request to the
  engine (recorded in \<open>contacted\<close>) and relays the reply, or answers 502 when the engine
  cannot be reached.
\<close>

definition proxyServeHTTP :: "Server \<Rightarrow> handler" where
  "proxyServeHTTP s wd w r =
     (let url = target (proxy s) @ URLPath r;
          wd1 = wd\<lparr>contacted := contacted wd @ [(Method r, url)]\<rparr>
      in case engine wd (Method r) url of
           Unreachable \<Rightarrow> (wd1, WriteHeader StatusBadGateway w)
         | Reply code txt \<Rightarrow> (wd1, Write (Raw txt) (WriteHeader code w)))"

definition proxyPost :: "Server \<Rightarrow> handler" where
  "proxyPost s wd w r =
     (if Method r \<noteq> MethodPost
      then (wd, writeError w StatusMethodNotAllowed ''method not allowed'' ''invalid_request_error'')
      else proxyServeHTTP s wd w r)"

definition handleModels :: "Server \<Rightarrow> handler" where
  "handleModels s wd w r =
     (let list = \<lparr>ListObject = ''list'',
                  Data = [\<lparr>ID = modelName s, Object = ''model'',
                           Created = clock wd, OwnedBy = ''local''\<rparr>]\<rparr>
      in (wd, Write (JModelList list) (HeaderSet ''Content-Type'' ''application/json'' w)))"

definition handleHealth :: "Server \<Rightarrow> handler" where
  "handleHealth s wd w r =
     (let url = backendURL s @ ''/health'';
          wd1 = wd\<lparr>contacted := contacted wd @ [(''GET'', url)]\<rparr>
      in case engine wd ''GET'' url of
           Unreachable \<Rightarrow>
             (wd1, writeError w StatusServiceUnavailable ''backend unavailable'' ''server_error'')
         | Reply code txt \<Rightarrow>
             (wd1, Write (Raw txt)
                     (WriteHeader code (HeaderSet ''Content-Type'' ''application/json'' w))))"

definition NotFound :: "ResponseWriter \<Rightarrow> ResponseWriter" where
  "NotFound w =
     Write (Raw ''404 page not found'')
       (WriteHeader StatusNotFound
          (HeaderSet ''X-Content-Type-Options'' ''nosniff''
             (HeaderSet ''Content-Type'' ''text/plain; charset=utf-8'' w)))"

definition handleRoot :: "Server \<Rightarrow> handler" where
  "handleRoot s wd w r =
     (if URLPath r \<noteq> ''/'' then (wd, NotFound w)
      else (wd, Write (JRootInfo (modelName s))
                  (HeaderSet ''Content-Type'' ''application/json'' w)))"

definition cors :: "handler \<Rightarrow> handler" where
  "cors next wd w r =
     (let w1 = HeaderSet ''Access-Control-Allow-Origin'' ''*'' w;
          w2 = HeaderSet ''Access-Control-Allow-Methods'' ''GET, POST, OPTIONS'' w1;
          w3 = HeaderSet ''Access-Control-Allow-Headers'' ''Content-Type, Authorization'' w2
      in if Method r = MethodOptions then (wd, WriteHeader StatusNoContent w3)
         else next wd w3 r)"

text \<open>
  The routing table of \<^verbatim>\<open>ListenAndServe\<close>: five exact patterns and the catch-all
  \<^verbatim>\<open>"/"\<close>. The path is the one the multiplexer hands to the handler.
\<close>

definition mux :: "Server \<Rightarrow> handler" where
  "mux s wd w r =
     (if URLPath r = ''/v1/chat/completions'' then cors (proxyPost s) wd w r
      else if URLPath r = ''/v1/completions'' then cors (proxyPost s) wd w r
      else if URLPath r = ''/v1/embeddings'' then cors (proxyPost s) wd w r
      else if URLPath r = ''/v1/models'' then cors (handleModels s) wd w r
      else if URLPath r = ''/health'' then handleHealth s wd w r
      else handleRoot s wd w r)"

text \<open>
  One request served by the gateway: the server hands the multiplexer a fresh response
  writer, which knows whether the request is a HEAD request.
\<close>

definition serve :: "Server \<Rightarrow> World \<Rightarrow> Request \<Rightarrow> World \<times> ResponseWriter" where
  "serve s wd r = mux s wd (newResponseWriter\<lparr>head := (Method r = MethodHead)\<rparr>) r"

definition corsHeaders :: "string \<rightharpoonup> string" where
  "corsHeaders =
     [''Access-Control-Allow-Origin'' \<mapsto> ''*'',
      ''Access-Control-Allow-Methods'' \<mapsto> ''GET, POST, OPTIONS'',
      ''Access-Control-Allow-Headers'' \<mapsto> ''Content-Type, Authorization'']"

definition corsRoutes :: "string list" where
  "corsRoutes = [''/v1/chat/completions'', ''/v1/completions'', ''/v1/embeddings'', ''/v1/models'']"

definition completionRoutes :: "string list" where
  "completionRoutes = [''/v1/chat/completions'', ''/v1/completions'', ''/v1/embeddings'']"

section \<open>Configuration (package config) and the run command's setup\<close>

definition AppName :: string where "AppName = ''llmgw''"
definition DefaultPort :: int where "DefaultPort = 8080"
definition DefaultCtx :: int where "DefaultCtx = 4096"

text \<open>The package constant \<^verbatim>\<open>config.BackendPort\<close>; the field of the same name is below.\<close>

definition config_BackendPort :: int where "config_BackendPort = 39741"

record Config =
  HomeDir :: string
  ModelsDir :: string
  BinDir :: string
  Port :: int
  CtxSize :: int
  BackendPort :: int
  Verbose :: bool
  Quant :: string

text \<open>
  \<^verbatim>\<open>filepath.Join\<close> for two elements, with the separator \<^verbatim>\<open>/\<close>; the library also
  cleans the result, which the paths built here do not need.
\<close>

definition Join :: "string \<Rightarrow> string \<Rightarrow> string" where
  "Join a b = a @ ''/'' @ b"

text \<open>\<^verbatim>\<open>config.New\<close>; the argument is what \<^verbatim>\<open>os.UserHomeDir\<close> returned.\<close>

definition New :: "string \<Rightarrow> Config" where
  "New userHome =
     (let home = (if userHome = [] then ''.'' else userHome);
          appDir = Join home (''.'' @ AppName)
      in \<lparr>HomeDir = appDir, ModelsDir = Join appDir ''models'', BinDir = Join appDir ''bin'',
          Port = DefaultPort, CtxSize = DefaultCtx, BackendPort = config_BackendPort,
          Verbose = False, Quant = []\<rparr>)"

definition BackendBinaryPath :: "string \<Rightarrow> Config \<Rightarrow> string" where
  "BackendBinaryPath goos c =
     Join (BinDir c) (if goos = ''windows'' then ''llama-server'' @ ''.exe'' else ''llama-server'')"

text \<open>
  The flags of \<^verbatim>\<open>llmgw run\<close> as the user gave them (\<open>None\<close>: not given, the flag set's
  default applies), and the configuration \<^verbatim>\<open>cmdRun\<close> builds from them.
\<close>

record RunFlags =
  flag_port :: "int option"
  flag_context :: "int option"
  flag_quant :: "string option"
  flag_verbose :: "bool option"

definition cmdRun_config :: "string \<Rightarrow> RunFlags \<Rightarrow> Config" where
  "cmdRun_config userHome fl =
     (New userHome)
       \<lparr>Port := (case flag_port fl of None \<Rightarrow> DefaultPort | Some p \<Rightarrow> p),
        CtxSize := (case flag_context fl of None \<Rightarrow> DefaultCtx | Some c \<Rightarrow> c),
        Verbose := (case flag_verbose fl of None \<Rightarrow> False | Some v \<Rightarrow> v),
        Quant := (case flag_quant fl of None \<Rightarrow> [] | Some q \<Rightarrow> q)\<rparr>"

section \<open>Errors and formatting\<close>

text \<open>
  An error built by \<^verbatim>\<open>fmt.Errorf\<close> is kept as its format string and arguments, a
  wrapping one (\<^verbatim>\<open>%w\<close>) with the error it wraps; \<open>LibError\<close> is an error a library
  call returned. The repository declares no error types of its own.
\<close>

datatype fmt_arg = ArgInt int | ArgStr string | ArgDuration int

datatype error =
    Errorf string "fmt_arg list"
  | Wrapf string "fmt_arg list" error
  | LibError string

datatype 'a outcome = Returns 'a | Panics

text \<open>The verb \<^verbatim>\<open>%d\<close> of \<^verbatim>\<open>fmt.Sprintf\<close> on an integer.\<close>

fun digits :: "nat \<Rightarrow> string" where
  "digits n =
     (if n < 10 then [''0123456789'' ! n]
      else digits (n div 10) @ [''0123456789'' ! (n mod 10)])"

declare digits.simps [simp del]

definition Sprintf_d :: "int \<Rightarrow> string" where
  "Sprintf_d i = (if i < 0 then CHR ''-'' # digits (nat (- i)) else digits (nat i))"

section \<open>The process supervisor (package backend)\<close>

subsection \<open>Child processes as the library presents them\<close>

text \<open>
  What \<^verbatim>\<open>os/exec\<close> and the operating system contribute. A \<^verbatim>\<open>ProcessState\<close> tells how
  a child ended; \<^verbatim>\<open>Exited()\<close> is true for a child that called exit and false for one
  ended by a signal. A command's \<open>Process\<close> is set by a successful \<^verbatim>\<open>Start\<close>; its
  \<open>ProcessState\<close> is set by \<^verbatim>\<open>Wait\<close> and by nothing else.
\<close>

datatype ProcessState = ExitStatus int | Signaled int

fun Exited :: "ProcessState \<Rightarrow> bool" where
  "Exited (ExitStatus _) = True"
| "Exited (Signaled _) = False"

record Cmd =
  Path :: string
  Args :: "string list"
  Dir :: string
  Discard :: bool
  Process :: "nat option"
  ProcessState :: "ProcessState option"

text \<open>
  The operating system's side: each child, by process id, is running, has ended and
  waits to be reaped, or has been reaped. \<open>can_exec\<close> says which files the system
  accepts to run, \<open>next_pid\<close> is the id the next child gets. \<open>pipe_held\<close> says of a
  child whether some descendant of it still holds the child's output pipe open.

  A command whose \<^verbatim>\<open>Stdout\<close> and \<^verbatim>\<open>Stderr\<close> are \<^verbatim>\<open>io.Discard\<close> (\<open>Discard\<close>) writes
  into a pipe that the library copies from; one whose streams are files
  (\<^verbatim>\<open>os.Stdout\<close>, \<^verbatim>\<open>os.Stderr\<close>) writes to them directly.
\<close>

datatype child = Running | Ended ProcessState | Reaped

record System =
  procs :: "nat \<Rightarrow> child"
  can_exec :: "string \<Rightarrow> bool"
  next_pid :: nat
  pipe_held :: "nat \<Rightarrow> bool"

definition exec_Command :: "string \<Rightarrow> string list \<Rightarrow> Cmd" where
  "exec_Command name args =
     \<lparr>Path = name, Args = args, Dir = [], Discard = False, Process = None, ProcessState = None\<rparr>"

definition Cmd_Start :: "System \<Rightarrow> Cmd \<Rightarrow> System \<times> Cmd \<times> error option" where
  "Cmd_Start sys c =
     (if can_exec sys (Path c)
      then (sys\<lparr>procs := (procs sys)(next_pid sys := Running), next_pid := Suc (next_pid sys)\<rparr>,
            c\<lparr>Process := Some (next_pid sys)\<rparr>, None)
      else (sys, c, Some (LibError ''exec: cannot start'')))"

text \<open>
  \<^verbatim>\<open>Process.Kill\<close> ends a running child with signal 9, which it cannot refuse; on a child
  that has ended already it changes nothing (the error it returns is dropped by the
  caller). It reaches the child only, not the child's descendants.
\<close>

definition Kill :: "System \<Rightarrow> nat \<Rightarrow> System" where
  "Kill sys pid =
     (case procs sys pid of
        Running \<Rightarrow> sys\<lparr>procs := (procs sys)(pid := Ended (Signaled 9))\<rparr>
      | _ \<Rightarrow> sys)"

text \<open>
  \<^verbatim>\<open>Cmd.Wait\<close>: an error at once when the command was not started or was waited for
  before. Otherwise it waits for the child to end, reaps it and stores how it ended,
  and then, for a command with discarded output, waits until the output pipe is closed
  by everyone who holds it. It does not return (\<open>None\<close>) on a child that is still
  running, nor while a descendant holds the pipe of a command with discarded output.
\<close>

definition Cmd_Wait :: "System \<Rightarrow> Cmd \<Rightarrow> (System \<times> Cmd \<times> error option) option" where
  "Cmd_Wait sys c =
     (case Process c of
        None \<Rightarrow> Some (sys, c, Some (LibError ''exec: not started''))
      | Some pid \<Rightarrow>
          (case ProcessState c of
             Some _ \<Rightarrow> Some (sys, c, Some (LibError ''exec: Wait was already called''))
           | None \<Rightarrow>
               (case procs sys pid of
                  Running \<Rightarrow> None
                | Ended ps \<Rightarrow>
                    if Discard c \<and> pipe_held sys pid then None
                    else Some (sys\<lparr>procs := (procs sys)(pid := Reaped)\<rparr>,
                               c\<lparr>ProcessState := Some ps\<rparr>,
                               if ps = ExitStatus 0 then None else Some (LibError ''exit status''))
                | Reaped \<Rightarrow>
                    if Discard c \<and> pipe_held sys pid then None
                    else Some (sys, c, Some (LibError ''wait: no child processes'')))))"

subsection \<open>The manager\<close>

record Manager =
  cfg :: Config
  cmd :: "Cmd option"

definition backend_New :: "Config \<Rightarrow> Manager" where
  "backend_New c = \<lparr>cfg = c, cmd = None\<rparr>"

definition Start :: "System \<Rightarrow> Manager \<Rightarrow> string \<Rightarrow> string \<Rightarrow> System \<times> Manager \<times> error option" where
  "Start sys m goos modelPath =
     (let binPath = BackendBinaryPath goos (cfg m);
          args = [''-m'', modelPath,
                  ''--port'', Sprintf_d (BackendPort (cfg m)),
                  ''-c'', Sprintf_d (CtxSize (cfg m)),
                  ''--host'', ''127.0.0.1''];
          c = (exec_Command binPath args)\<lparr>Dir := BinDir (cfg m), Discard := \<not> Verbose (cfg m)\<rparr>
      in case Cmd_Start sys c of
           (sys1, c1, Some e) \<Rightarrow>
             (sys1, m\<lparr>cmd := Some c1\<rparr>, Some (Wrapf ''starting llama-server: %w'' [] e))
         | (sys1, c1, None) \<Rightarrow> (sys1, m\<lparr>cmd := Some c1\<rparr>, None))"

text \<open>
  \<^verbatim>\<open>WaitReady\<close>. The engine's health endpoint is given by what its \<open>k\<close>-th request gets
  (an error, or a status code) and how many nanoseconds that request takes. Time is in
  nanoseconds. The clock is read once to compute the deadline and again at the head of
  every round of the loop; \<open>startup\<close> is the time that passes between the reading for
  the deadline and the loop's first reading. Every request is taken to complete, and
  each round ends with a sleep of 500 ms. The loop reads \<^verbatim>\<open>m.cmd.ProcessState\<close> and
  never writes it. Reading it on a manager that has no command is a nil dereference.
\<close>

datatype http_result = GetFailed | Status int

record Health =
  answer :: "nat \<Rightarrow> http_result"
  latency :: "nat \<Rightarrow> nat"
  startup :: nat

definition exitedError :: error where
  "exitedError = Errorf ''llama-server process exited unexpectedly'' []"

definition notReadyError :: "int \<Rightarrow> error" where
  "notReadyError timeout = Errorf ''backend not ready after %v'' [ArgDuration timeout]"

function WaitReady_loop ::
  "Manager \<Rightarrow> Health \<Rightarrow> int \<Rightarrow> int \<Rightarrow> int \<Rightarrow> nat \<Rightarrow> error option outcome" where
  "WaitReady_loop m hl timeout deadline now k =
     (if now < deadline then
        (if answer hl k = Status StatusOK then Returns None
         else
           (case cmd m of
              None \<Rightarrow> Panics
            | Some c \<Rightarrow>
                (case ProcessState c of
                   None \<Rightarrow>
                     WaitReady_loop m hl timeout deadline
                       (now + int (latency hl k) + 500 * Millisecond) (Suc k)
                 | Some ps \<Rightarrow>
                     if Exited ps then Returns (Some exitedError)
                     else WaitReady_loop m hl timeout deadline
                            (now + int (latency hl k) + 500 * Millisecond) (Suc k))))
      else Returns (Some (notReadyError timeout)))"
  by pat_completeness auto
termination
  by (relation "measure (\<lambda>(m, hl, timeout, deadline, now, k). nat (deadline - now))")
     (auto simp add: Millisecond_def)

definition WaitReady :: "Manager \<Rightarrow> Health \<Rightarrow> int \<Rightarrow> int \<Rightarrow> error option outcome" where
  "WaitReady m hl now timeout =
     WaitReady_loop m hl timeout (now + timeout) (now + int (startup hl)) 0"

text \<open>\<^verbatim>\<open>Stop\<close>; \<open>None\<close> when the call does not return.\<close>

definition Stop :: "System \<Rightarrow> Manager \<Rightarrow> (System \<times> Manager) option" where
  "Stop sys m =
     (case cmd m of
        None \<Rightarrow> Some (sys, m)
      | Some c \<Rightarrow>
          (case Process c of
             None \<Rightarrow> Some (sys, m)
           | Some pid \<Rightarrow>
               (case Cmd_Wait (Kill sys pid) c of
                  None \<Rightarrow> None
                | Some (sys1, c1, _) \<Rightarrow> Some (sys1, m\<lparr>cmd := Some c1\<rparr>))))"

definition BackendURL :: "Manager \<Rightarrow> string" where
  "BackendURL m = ''http://127.0.0.1:'' @ Sprintf_d (BackendPort (cfg m))"

section \<open>Provisioning the engine binary\<close>

subsection \<open>Strings and paths\<close>

fun HasPrefix :: "string \<Rightarrow> string \<Rightarrow> bool" where
  "HasPrefix s [] = True"
| "HasPrefix [] (p # ps) = False"
| "HasPrefix (c # cs) (p # ps) = (c = p \<and> HasPrefix cs ps)"

definition HasSuffix :: "string \<Rightarrow> string \<Rightarrow> bool" where
  "HasSuffix s suffix = HasPrefix (rev s) (rev suffix)"

fun Contains :: "string \<Rightarrow> string \<Rightarrow> bool" where
  "Contains [] substr = (substr = [])"
| "Contains (c # cs) substr = (HasPrefix (c # cs) substr \<or> Contains cs substr)"

text \<open>\<^verbatim>\<open>strings.ToLower\<close> on the ASCII letters (asset and file names are ASCII).\<close>

definition ToLower :: "string \<Rightarrow> string" where
  "ToLower s =
     map (\<lambda>c. case map_of (zip ''ABCDEFGHIJKLMNOPQRSTUVWXYZ'' ''abcdefghijklmnopqrstuvwxyz'') c of
                 None \<Rightarrow> c | Some l \<Rightarrow> l) s"

text \<open>\<^verbatim>\<open>filepath.Base\<close> with the separator \<^verbatim>\<open>/\<close>.\<close>

definition Base :: "string \<Rightarrow> string" where
  "Base p =
     (if p = [] then ''.''
      else let q = dropWhile (\<lambda>c. c = CHR ''/'') (rev p)
           in if q = [] then ''/'' else rev (takeWhile (\<lambda>c. c \<noteq> CHR ''/'') q))"

subsection \<open>Files, the network and archives\<close>

text \<open>
  The file system is a map from paths to files (bytes and permission bits); \<open>trace\<close>
  lists what the program printed and which URLs it requested, newest last.
  \<^verbatim>\<open>os.Stat\<close> succeeds on a path exactly when the map has a file there.
\<close>

record File =
  content :: string
  mode :: nat

datatype event = Info string | Success string | HttpGet string

record Host =
  files :: "string \<rightharpoonup> File"
  trace :: "event list"

text \<open>
  What the run depends on outside the program. \<open>release\<close> is the answer of the release
  API: a failed request, or a status with the decoded asset list (name and download URL
  each; \<open>None\<close> when the body does not decode). \<open>fetch\<close> is the answer to a download: a
  failed request, or a status, the bytes the body delivers and whether the body ends
  without a read error. \<open>openZip\<close> and \<open>openTarGz\<close> read an archive from a file's bytes.
  An archive member delivers \<open>data\<close> and then ends cleanly (\<open>intact\<close>) or with a read
  error; a tar stream ends cleanly or with an error after its members. The three
  \<open>_fails\<close> fields say which calls of \<^verbatim>\<open>os.Create\<close>, \<^verbatim>\<open>os.MkdirAll\<close> (for the directory
  of the path) and \<^verbatim>\<open>os.Rename\<close> (from the path) the system refuses. \<open>file_mode\<close> is the
  permission bits \<^verbatim>\<open>os.Create\<close> gives a new file: 0666 less the process's umask, which
  is 0644 (420) under the usual umask.
\<close>

datatype api_reply = ApiFailed | ApiStatus int "(string \<times> string) list option"

datatype download = DlFailed | DlStatus int string bool

record ZipEntry =
  Name :: string
  opens :: bool
  data :: string
  intact :: bool

datatype tar_member = Hdr string string bool

record Env =
  GOOS :: string
  GOARCH :: string
  release :: api_reply
  fetch :: "string \<Rightarrow> download"
  openZip :: "string \<Rightarrow> ZipEntry list option"
  openTarGz :: "string \<Rightarrow> (tar_member list \<times> bool) option"
  create_fails :: "string \<Rightarrow> bool"
  mkdir_fails :: "string \<Rightarrow> bool"
  rename_fails :: "string \<Rightarrow> bool"
  file_mode :: nat

definition said :: "event \<Rightarrow> Host \<Rightarrow> Host" where
  "said e h = h\<lparr>trace := trace h @ [e]\<rparr>"

text \<open>
  \<^verbatim>\<open>os.Create\<close> followed by \<^verbatim>\<open>io.Copy\<close> of the given bytes: the file holds them
  afterwards, with the permission bits it had, or those of a new file.
\<close>

definition create_write :: "Env \<Rightarrow> string \<Rightarrow> string \<Rightarrow> Host \<Rightarrow> Host" where
  "create_write env path bytes h =
     h\<lparr>files := (files h)(path \<mapsto>
          \<lparr>content = bytes,
           mode = (case files h path of None \<Rightarrow> file_mode env | Some old \<Rightarrow> mode old)\<rparr>)\<rparr>"

definition Remove :: "string \<Rightarrow> Host \<Rightarrow> Host" where
  "Remove path h = h\<lparr>files := (files h)(path := None)\<rparr>"

definition Rename :: "string \<Rightarrow> string \<Rightarrow> Host \<Rightarrow> Host" where
  "Rename old new h =
     (case files h old of
        None \<Rightarrow> h
      | Some f \<Rightarrow> h\<lparr>files := ((files h)(old := None))(new \<mapsto> f)\<rparr>)"

definition Chmod :: "string \<Rightarrow> nat \<Rightarrow> Host \<Rightarrow> Host" where
  "Chmod path bits h =
     (case files h path of
        None \<Rightarrow> h
      | Some f \<Rightarrow> h\<lparr>files := (files h)(path \<mapsto> f\<lparr>mode := bits\<rparr>)\<rparr>)"

subsection \<open>DownloadFile (package downloader)\<close>

definition DownloadFile :: "Env \<Rightarrow> Host \<Rightarrow> string \<Rightarrow> string \<Rightarrow> string \<Rightarrow> Host \<times> error option" where
  "DownloadFile env h url destPath label =
     (if (case files h destPath of None \<Rightarrow> False | Some f \<Rightarrow> 0 < length (content f))
      then (h, None)
      else if mkdir_fails env destPath
      then (h, Some (Wrapf ''creating directory: %w'' [] (LibError ''mkdir'')))
      else
        (let tmpPath = destPath @ ''.download''; h1 = said (HttpGet url) h
         in case fetch env url of
              DlFailed \<Rightarrow> (h1, Some (Wrapf ''requesting %s: %w'' [ArgStr label] (LibError ''get'')))
            | DlStatus code bytes clean \<Rightarrow>
                if code \<noteq> StatusOK
                then (h1, Some (Errorf ''download %s failed: HTTP %d'' [ArgStr label, ArgInt code]))
                else if create_fails env tmpPath
                then (h1, Some (Wrapf ''creating temp file: %w'' [] (LibError ''create'')))
                else
                  (let h2 = create_write env tmpPath bytes h1
                   in if \<not> clean
                      then (Remove tmpPath h2,
                            Some (Wrapf ''writing %s: %w'' [ArgStr label] (LibError ''read'')))
                      else if rename_fails env tmpPath
                      then (Remove tmpPath h2,
                            Some (Wrapf ''finalizing %s: %w'' [ArgStr label] (LibError ''rename'')))
                      else (Rename tmpPath destPath h2, None))))"

subsection \<open>Choosing the release asset\<close>

definition targetAssetHints :: "string \<Rightarrow> string \<Rightarrow> string list" where
  "targetAssetHints goos goarch =
     (if goos = ''windows'' \<and> goarch = ''amd64'' then [''win-cpu-x64'', ''win-avx2-x64'']
      else if goos = ''windows'' \<and> goarch = ''arm64'' then [''win-cpu-arm64'', ''win-arm64'']
      else if goos = ''darwin'' \<and> goarch = ''arm64'' then [''macos-arm64'']
      else if goos = ''darwin'' \<and> goarch = ''amd64'' then [''macos-x64'']
      else if goos = ''linux'' \<and> goarch = ''amd64'' then [''ubuntu-x64'']
      else [goos @ ''-'' @ goarch])"

definition osAssetKey :: "string \<Rightarrow> string" where
  "osAssetKey goos =
     (if goos = ''windows'' then ''win-''
      else if goos = ''darwin'' then ''macos-''
      else if goos = ''linux'' then ''ubuntu-''
      else goos)"

definition isArchive :: "string \<Rightarrow> bool" where
  "isArchive name = (HasSuffix name ''.zip'' \<or> HasSuffix name ''.tar.gz'')"

fun try_hints :: "string list \<Rightarrow> (string \<times> string) list \<Rightarrow> (string \<times> string) option" where
  "try_hints [] assets = None"
| "try_hints (t # ts) assets =
     (case find (\<lambda>a. Contains (ToLower (fst a)) t \<and> isArchive (ToLower (fst a))) assets of
        Some a \<Rightarrow> Some a
      | None \<Rightarrow> try_hints ts assets)"

definition broad_fallback :: "string \<Rightarrow> (string \<times> string) list \<Rightarrow> (string \<times> string) option" where
  "broad_fallback osKey assets =
     find (\<lambda>a. let lower = ToLower (fst a)
               in Contains lower osKey \<and> isArchive lower \<and>
                  \<not> Contains lower ''cuda'' \<and> \<not> Contains lower ''vulkan'' \<and>
                  \<not> Contains lower ''sycl'' \<and> \<not> Contains lower ''hip'' \<and>
                  \<not> Contains lower ''opencl'' \<and> \<not> Contains lower ''aclgraph'' \<and>
                  \<not> Contains lower ''cudart'') assets"

text \<open>\<^verbatim>\<open>findRelease\<close> returns the download URL and the asset's name.\<close>

definition releaseURL :: string where
  "releaseURL = ''https://api.github.com/repos/ggml-org/llama.cpp/releases/latest''"

definition findRelease :: "Env \<Rightarrow> Host \<Rightarrow> Host \<times> (error + string \<times> string)" where
  "findRelease env h =
     (let h1 = said (HttpGet releaseURL) h
      in case release env of
           ApiFailed \<Rightarrow> (h1, Inl (LibError ''get''))
         | ApiStatus code decoded \<Rightarrow>
             if code \<noteq> StatusOK
             then (h1, Inl (Errorf ''GitHub API returned HTTP %d'' [ArgInt code]))
             else
               (case decoded of
                  None \<Rightarrow> (h1, Inl (LibError ''json''))
                | Some assets \<Rightarrow>
                    (case try_hints (targetAssetHints (GOOS env) (GOARCH env)) assets of
                       Some a \<Rightarrow> (h1, Inr (snd a, fst a))
                     | None \<Rightarrow>
                         (case broad_fallback (osAssetKey (GOOS env)) assets of
                            Some a \<Rightarrow> (h1, Inr (snd a, fst a))
                          | None \<Rightarrow>
                              (h1, Inl (Errorf ''no llama.cpp release found for %s/%s''
                                          [ArgStr (GOOS env), ArgStr (GOARCH env)]))))))"

subsection \<open>Extraction\<close>

definition extractZipFile :: "Env \<Rightarrow> Host \<Rightarrow> ZipEntry \<Rightarrow> string \<Rightarrow> Host \<times> error option" where
  "extractZipFile env h f dest =
     (if \<not> opens f then (h, Some (LibError ''zip: open''))
      else if create_fails env dest then (h, Some (LibError ''create''))
      else (create_write env dest (data f) h,
            if intact f then None else Some (LibError ''read'')))"

fun zip_members ::
  "Env \<Rightarrow> string \<Rightarrow> string \<Rightarrow> string \<Rightarrow> ZipEntry list \<Rightarrow> Host \<Rightarrow> bool \<Rightarrow> Host \<times> error option" where
  "zip_members env binDir serverName serverDest [] h found =
     (h, if found then None else Some (Errorf ''llama-server not found in archive'' []))"
| "zip_members env binDir serverName serverDest (f # fs) h found =
     (if Base (Name f) = serverName then
        (case extractZipFile env h f serverDest of
           (h1, Some e) \<Rightarrow> (h1, Some e)
         | (h1, None) \<Rightarrow> zip_members env binDir serverName serverDest fs h1 True)
      else if GOOS env = ''windows'' \<and> HasSuffix (ToLower (Base (Name f))) ''.dll'' then
        zip_members env binDir serverName serverDest fs
          (fst (extractZipFile env h f (Join binDir (Base (Name f))))) found
      else zip_members env binDir serverName serverDest fs h found)"

definition extractFromZip :: "Env \<Rightarrow> Manager \<Rightarrow> Host \<Rightarrow> string \<Rightarrow> string \<Rightarrow> Host \<times> error option" where
  "extractFromZip env m h zipPath serverDest =
     (case (case files h zipPath of None \<Rightarrow> None | Some z \<Rightarrow> openZip env (content z)) of
        None \<Rightarrow> (h, Some (Wrapf ''opening zip: %w'' [] (LibError ''zip'')))
      | Some entries \<Rightarrow>
          zip_members env (BinDir (cfg m))
            (if GOOS env = ''windows'' then ''llama-server.exe'' else ''llama-server'')
            serverDest entries h False)"

fun tar_members ::
  "Env \<Rightarrow> string \<Rightarrow> tar_member list \<Rightarrow> bool \<Rightarrow> Host \<Rightarrow> bool \<Rightarrow> Host \<times> error option" where
  "tar_members env serverDest [] ends_ok h found =
     (if \<not> ends_ok then (h, Some (Wrapf ''reading tar: %w'' [] (LibError ''tar'')))
      else (h, if found then None else Some (Errorf ''llama-server not found in archive'' [])))"
| "tar_members env serverDest (Hdr name bytes clean # rest) ends_ok h found =
     (if Base name = ''llama-server'' then
        (if create_fails env serverDest then (h, Some (LibError ''create''))
         else if \<not> clean then (create_write env serverDest bytes h, Some (LibError ''read''))
         else tar_members env serverDest rest ends_ok (create_write env serverDest bytes h) True)
      else tar_members env serverDest rest ends_ok h found)"

definition extractFromTarGz :: "Env \<Rightarrow> Manager \<Rightarrow> Host \<Rightarrow> string \<Rightarrow> string \<Rightarrow> Host \<times> error option" where
  "extractFromTarGz env m h tarGzPath serverDest =
     (case files h tarGzPath of
        None \<Rightarrow> (h, Some (Wrapf ''opening tar.gz: %w'' [] (LibError ''open'')))
      | Some z \<Rightarrow>
          (case openTarGz env (content z) of
             None \<Rightarrow> (h, Some (Wrapf ''creating gzip reader: %w'' [] (LibError ''gzip'')))
           | Some (members, ends_ok) \<Rightarrow> tar_members env serverDest members ends_ok h False))"

definition extractBinaries :: "Env \<Rightarrow> Manager \<Rightarrow> Host \<Rightarrow> string \<Rightarrow> string \<Rightarrow> Host \<times> error option" where
  "extractBinaries env m h archivePath serverDest =
     (if HasSuffix (ToLower archivePath) ''.tar.gz''
      then extractFromTarGz env m h archivePath serverDest
      else extractFromZip env m h archivePath serverDest)"

subsection \<open>EnsureBackend\<close>

definition EnsureBackend :: "Env \<Rightarrow> Manager \<Rightarrow> Host \<Rightarrow> Host \<times> error option" where
  "EnsureBackend env m h =
     (let binPath = BackendBinaryPath (GOOS env) (cfg m)
      in if files h binPath \<noteq> None then (h, None)
         else
           (case findRelease env (said (Info ''Downloading llama.cpp inference server...'') h) of
              (h1, Inl e) \<Rightarrow> (h1, Some (Wrapf ''finding llama.cpp release: %w'' [] e))
            | (h1, Inr (dlURL, assetName)) \<Rightarrow>
                (let zipPath = Join (BinDir (cfg m)) assetName
                 in case DownloadFile env h1 dlURL zipPath ''llama.cpp'' of
                      (h2, Some e) \<Rightarrow> (h2, Some (Wrapf ''downloading llama.cpp: %w'' [] e))
                    | (h2, None) \<Rightarrow>
                        (case extractBinaries env m h2 zipPath binPath of
                           (h3, Some e) \<Rightarrow> (h3, Some (Wrapf ''extracting llama.cpp: %w'' [] e))
                         | (h3, None) \<Rightarrow>
                             (let h4 = Remove zipPath h3;
                                  h5 = (if GOOS env \<noteq> ''windows'' then Chmod binPath 493 h4 else h4)
                              in (said (Success ''llama.cpp server installed'') h5, None))))))"

text \<open>
  A run on linux/amd64 with nothing installed: the release lists one zip asset, the
  download succeeds, and the archive's \<^verbatim>\<open>llama-server\<close> member breaks off with a read
  error after its first bytes.
\<close>

definition broken_env :: Env where
  "broken_env =
     \<lparr>GOOS = ''linux'', GOARCH = ''amd64'',
      release = ApiStatus 200 (Some [(''llama-b1-bin-ubuntu-x64.zip'', ''https://host/llama.zip'')]),
      fetch = (\<lambda>u. DlStatus 200 ''PK-archive-bytes'' True),
      openZip = (\<lambda>bytes. Some [\<lparr>Name = ''build/bin/llama-server'', opens = True,
                                 data = ''ELF-first-half'', intact = False\<rparr>]),
      openTarGz = (\<lambda>bytes. None),
      create_fails = (\<lambda>p. False), mkdir_fails = (\<lambda>p. False), rename_fails = (\<lambda>p. False),
      file_mode = 420\<rparr>"

definition empty_host :: Host where
  "empty_host = \<lparr>files = Map.empty, trace = []\<rparr>"

text \<open>
  A supervisor whose engine has crashed: from a system with no children, the manager
  starts the engine (it becomes child 1), and the child then exits with status 1 on its
  own, before anyone waits for it.
\<close>

definition idle_system :: System where
  "idle_system =
     \<lparr>procs = (\<lambda>pid. Reaped), can_exec = (\<lambda>path. True), next_pid = 1,
      pipe_held = (\<lambda>pid. False)\<rparr>"

definition started_system :: System where
  "started_system = fst (Start idle_system (backend_New (New ''/home/u'')) ''linux'' ''/m.gguf'')"

definition started_manager :: Manager where
  "started_manager =
     fst (snd (Start idle_system (backend_New (New ''/home/u'')) ''linux'' ''/m.gguf''))"

definition crashed_system :: System where
  "crashed_system = started_system\<lparr>procs := (procs started_system)(1 := Ended (ExitStatus 1))\<rparr>"

text \<open>The same, with a descendant of the engine that still holds its output pipe.\<close>

definition orphaned_system :: System where
  "orphaned_system = crashed_system\<lparr>pipe_held := (\<lambda>pid. pid = 1)\<rparr>"

text \<open>An engine that never answers its health endpoint.\<close>

definition dead_engine :: Health where
  "dead_engine = \<lparr>answer = (\<lambda>k. GetFailed), latency = (\<lambda>k. 0), startup = 0\<rparr>"

section \<open>Properties of the gateway\<close>

subsection \<open>What each route answers\<close>

lemmas writer_defs =
  writeError_def Write_def WriteHeader_def HeaderSet_def newResponseWriter_def
  bodyAllowedForStatus_def Let_def

lemma mux_completion:
  "URLPath r \<in> set completionRoutes \<Longrightarrow> mux s wd w r = cors (proxyPost s) wd w r"
  by (auto simp add: mux_def completionRoutes_def)

lemma mux_models:
  "URLPath r = ''/v1/models'' \<Longrightarrow> mux s wd w r = cors (handleModels s) wd w r"
  by (simp add: mux_def)

lemma cors_options:
  "Method r = ''OPTIONS'' \<Longrightarrow>
   cors next wd (newResponseWriter\<lparr>head := b\<rparr>) r =
     (wd, \<lparr>Header = corsHeaders, status = Some 204, sent = corsHeaders, body = [], head = b\<rparr>)"
  by (simp add: cors_def MethodOptions_def StatusNoContent_def corsHeaders_def writer_defs)

lemma mux_options:
  "URLPath r \<in> set corsRoutes \<Longrightarrow> Method r = ''OPTIONS'' \<Longrightarrow>
   mux s wd (newResponseWriter\<lparr>head := b\<rparr>) r =
     (wd, \<lparr>Header = corsHeaders, status = Some 204, sent = corsHeaders, body = [], head = b\<rparr>)"
  by (auto simp add: mux_def corsRoutes_def cors_options)

lemma serve_options:
  "URLPath r \<in> set corsRoutes \<Longrightarrow> Method r = ''OPTIONS'' \<Longrightarrow>
   serve s wd r =
     (wd, \<lparr>Header = corsHeaders, status = Some 204, sent = corsHeaders, body = [], head = False\<rparr>)"
  by (simp add: serve_def mux_options MethodHead_def)

lemma cors_proxyPost_rejects:
  "Method r \<noteq> ''POST'' \<Longrightarrow> Method r \<noteq> ''OPTIONS'' \<Longrightarrow>
   cors (proxyPost s) wd (newResponseWriter\<lparr>head := b\<rparr>) r =
     (wd, \<lparr>Header = corsHeaders(''Content-Type'' \<mapsto> ''application/json''),
           status = Some 405,
           sent = corsHeaders(''Content-Type'' \<mapsto> ''application/json''),
           body = (if b then []
                   else [JError \<lparr>Error = \<lparr>Message = ''method not allowed'',
                                          Type = ''invalid_request_error'', Code = []\<rparr>\<rparr>]),
           head = b\<rparr>)"
  by (simp add: cors_def proxyPost_def MethodOptions_def MethodPost_def
      StatusMethodNotAllowed_def corsHeaders_def writer_defs)

lemma serve_rejects:
  "URLPath r \<in> set completionRoutes \<Longrightarrow> Method r \<noteq> ''POST'' \<Longrightarrow> Method r \<noteq> ''OPTIONS'' \<Longrightarrow>
   serve s wd r =
     (wd, \<lparr>Header = corsHeaders(''Content-Type'' \<mapsto> ''application/json''),
           status = Some 405,
           sent = corsHeaders(''Content-Type'' \<mapsto> ''application/json''),
           body = (if Method r = ''HEAD'' then []
                   else [JError \<lparr>Error = \<lparr>Message = ''method not allowed'',
                                          Type = ''invalid_request_error'', Code = []\<rparr>\<rparr>]),
           head = (Method r = ''HEAD'')\<rparr>)"
  by (simp add: serve_def mux_completion cors_proxyPost_rejects MethodHead_def)

lemma cors_handleModels:
  "Method r \<noteq> ''OPTIONS'' \<Longrightarrow>
   cors (handleModels s) wd (newResponseWriter\<lparr>head := b\<rparr>) r =
     (wd, \<lparr>Header = corsHeaders(''Content-Type'' \<mapsto> ''application/json''),
           status = Some 200,
           sent = corsHeaders(''Content-Type'' \<mapsto> ''application/json''),
           body = (if b then []
                   else [JModelList \<lparr>ListObject = ''list'',
                           Data = [\<lparr>ID = modelName s, Object = ''model'', Created = clock wd,
                                    OwnedBy = ''local''\<rparr>]\<rparr>]),
           head = b\<rparr>)"
  by (simp add: cors_def handleModels_def MethodOptions_def corsHeaders_def writer_defs)

lemma serve_models:
  "URLPath r = ''/v1/models'' \<Longrightarrow> Method r \<noteq> ''OPTIONS'' \<Longrightarrow>
   serve s wd r =
     (wd, \<lparr>Header = corsHeaders(''Content-Type'' \<mapsto> ''application/json''),
           status = Some 200,
           sent = corsHeaders(''Content-Type'' \<mapsto> ''application/json''),
           body = (if Method r = ''HEAD'' then []
                   else [JModelList \<lparr>ListObject = ''list'',
                           Data = [\<lparr>ID = modelName s, Object = ''model'', Created = clock wd,
                                    OwnedBy = ''local''\<rparr>]\<rparr>]),
           head = (Method r = ''HEAD'')\<rparr>)"
  by (simp add: serve_def mux_models cors_handleModels MethodHead_def)

lemma corsRoutes_models: "''/v1/models'' \<in> set corsRoutes"
  by (simp add: corsRoutes_def)

subsection \<open>The claims\<close>

text \<open>
  Claim C4. A GET request to \<^verbatim>\<open>/v1/models\<close> is answered with status 200 and a list of
  exactly one entry whose id is the model name the server was constructed with; the
  entry's creation time is the clock reading of this call; the world is returned as it
  was (no request was sent to the engine) and the answer does not depend on what the
  engine would reply.
\<close>

theorem models_listing:
  "URLPath r = ''/v1/models'' \<Longrightarrow> Method r = ''GET'' \<Longrightarrow>
     fst (serve (NewServer p url name) wd r) = wd \<and>
     status (snd (serve (NewServer p url name) wd r)) = Some 200 \<and>
     body (snd (serve (NewServer p url name) wd r)) =
       [JModelList \<lparr>ListObject = ''list'',
          Data = [\<lparr>ID = name, Object = ''model'', Created = clock wd, OwnedBy = ''local''\<rparr>]\<rparr>] \<and>
     snd (serve (NewServer p url name) (wd\<lparr>engine := e\<rparr>) r) =
       snd (serve (NewServer p url name) wd r)"
  by (simp add: serve_models NewServer_def)

theorem models_listing_witness:
  "body (snd (serve (NewServer 8080 ''http://127.0.0.1:39741'' ''tinyllama'')
       \<lparr>clock = 1700000000, engine = (\<lambda>m u. Unreachable), contacted = []\<rparr>
       \<lparr>Method = ''GET'', URLPath = ''/v1/models'', ReqBody = []\<rparr>)) =
     [JModelList \<lparr>ListObject = ''list'',
        Data = [\<lparr>ID = ''tinyllama'', Object = ''model'', Created = 1700000000,
                 OwnedBy = ''local''\<rparr>]\<rparr>]"
  using models_listing [of "\<lparr>Method = ''GET'', URLPath = ''/v1/models'', ReqBody = []\<rparr>"
      8080 "''http://127.0.0.1:39741''" "''tinyllama''"
      "\<lparr>clock = 1700000000, engine = (\<lambda>m u. Unreachable), contacted = []\<rparr>"]
  by simp

text \<open>
  Claim C5, as stated, fails for the method HEAD: the handler answers 405 and writes
  the error body, but the server sends no body in answer to a HEAD request, so the
  client receives the status and the headers alone.
\<close>

theorem head_not_allowed_counterexample:
  "status (snd (serve (NewServer 8080 ''http://127.0.0.1:39741'' ''tinyllama'')
       \<lparr>clock = 0, engine = (\<lambda>m u. Reply 200 ''ok''), contacted = []\<rparr>
       \<lparr>Method = ''HEAD'', URLPath = ''/v1/chat/completions'', ReqBody = []\<rparr>)) = Some 405 \<and>
   body (snd (serve (NewServer 8080 ''http://127.0.0.1:39741'' ''tinyllama'')
       \<lparr>clock = 0, engine = (\<lambda>m u. Reply 200 ''ok''), contacted = []\<rparr>
       \<lparr>Method = ''HEAD'', URLPath = ''/v1/chat/completions'', ReqBody = []\<rparr>)) = []"
  by (simp add: serve_rejects completionRoutes_def)

text \<open>
  Claim C5, amended. On the three completion and embedding routes, a request whose
  method is neither POST nor OPTIONS is answered with status 405 and the JSON content
  type; the world is returned as it was, so nothing was sent to the engine. For every
  such method but HEAD the answer carries the error body of type
  \<^verbatim>\<open>invalid_request_error\<close>; for HEAD it carries no body.
\<close>

theorem non_post_rejected:
  "URLPath r \<in> set completionRoutes \<Longrightarrow> Method r \<noteq> ''POST'' \<Longrightarrow> Method r \<noteq> ''OPTIONS'' \<Longrightarrow>
     fst (serve s wd r) = wd \<and>
     status (snd (serve s wd r)) = Some 405 \<and>
     sent (snd (serve s wd r)) ''Content-Type'' = Some ''application/json'' \<and>
     body (snd (serve s wd r)) =
       (if Method r = ''HEAD'' then []
        else [JError \<lparr>Error = \<lparr>Message = ''method not allowed'',
                              Type = ''invalid_request_error'', Code = []\<rparr>\<rparr>])"
  by (simp add: serve_rejects)

theorem non_post_rejected_witness:
  "status (snd (serve (NewServer 8080 ''http://127.0.0.1:39741'' ''tinyllama'')
       \<lparr>clock = 0, engine = (\<lambda>m u. Reply 200 ''ok''), contacted = []\<rparr>
       \<lparr>Method = ''GET'', URLPath = ''/v1/chat/completions'', ReqBody = []\<rparr>)) = Some 405 \<and>
   body (snd (serve (NewServer 8080 ''http://127.0.0.1:39741'' ''tinyllama'')
       \<lparr>clock = 0, engine = (\<lambda>m u. Reply 200 ''ok''), contacted = []\<rparr>
       \<lparr>Method = ''GET'', URLPath = ''/v1/chat/completions'', ReqBody = []\<rparr>)) =
     [JError \<lparr>Error = \<lparr>Message = ''method not allowed'',
                      Type = ''invalid_request_error'', Code = []\<rparr>\<rparr>]"
  using non_post_rejected [of "\<lparr>Method = ''GET'', URLPath = ''/v1/chat/completions'', ReqBody = []\<rparr>"
      "NewServer 8080 ''http://127.0.0.1:39741'' ''tinyllama''"
      "\<lparr>clock = 0, engine = (\<lambda>m u. Reply 200 ''ok''), contacted = []\<rparr>"]
  by (simp add: completionRoutes_def)

text \<open>
  Claim C6. An OPTIONS request to any of the four routes wrapped by \<open>cors\<close> is answered
  with status 204, an empty body and the three CORS headers; the world is returned as it
  was, and the answer is the one \<open>cors\<close> gives whatever handler it wraps, so the wrapped
  handler has no part in it.
\<close>

theorem options_preflight:
  "URLPath r \<in> set corsRoutes \<Longrightarrow> Method r = ''OPTIONS'' \<Longrightarrow>
     fst (serve s wd r) = wd \<and>
     status (snd (serve s wd r)) = Some 204 \<and>
     body (snd (serve s wd r)) = [] \<and>
     sent (snd (serve s wd r)) = corsHeaders \<and>
     (\<forall>next. serve s wd r = cors next wd newResponseWriter r)"
proof -
  assume route: "URLPath r \<in> set corsRoutes" and options: "Method r = ''OPTIONS''"
  have fresh: "newResponseWriter = newResponseWriter\<lparr>head := False\<rparr>"
    by (simp add: newResponseWriter_def)
  have "cors nxt wd newResponseWriter r = serve s wd r" for nxt
    using cors_options [OF options, of nxt wd False] serve_options [OF route options, of s wd] fresh
    by simp
  then show ?thesis
    by (simp add: serve_options [OF route options])
qed

theorem options_preflight_witness:
  "status (snd (serve (NewServer 8080 ''http://127.0.0.1:39741'' ''tinyllama'')
       \<lparr>clock = 0, engine = (\<lambda>m u. Reply 200 ''ok''), contacted = []\<rparr>
       \<lparr>Method = ''OPTIONS'', URLPath = ''/v1/embeddings'', ReqBody = []\<rparr>)) = Some 204"
  using options_preflight [of "\<lparr>Method = ''OPTIONS'', URLPath = ''/v1/embeddings'', ReqBody = []\<rparr>"
      "NewServer 8080 ''http://127.0.0.1:39741'' ''tinyllama''"
      "\<lparr>clock = 0, engine = (\<lambda>m u. Reply 200 ''ok''), contacted = []\<rparr>"]
  by (simp add: corsRoutes_def)

text \<open>
  Claim C10, as stated, fails for the method HEAD: a HEAD request to \<^verbatim>\<open>/v1/models\<close> is
  not rejected and gets status 200, but the listing a GET receives is not sent.
\<close>

theorem models_head_counterexample:
  "status (snd (serve (NewServer 8080 ''http://127.0.0.1:39741'' ''tinyllama'')
       \<lparr>clock = 0, engine = (\<lambda>m u. Unreachable), contacted = []\<rparr>
       \<lparr>Method = ''HEAD'', URLPath = ''/v1/models'', ReqBody = []\<rparr>)) = Some 200 \<and>
   body (snd (serve (NewServer 8080 ''http://127.0.0.1:39741'' ''tinyllama'')
       \<lparr>clock = 0, engine = (\<lambda>m u. Unreachable), contacted = []\<rparr>
       \<lparr>Method = ''HEAD'', URLPath = ''/v1/models'', ReqBody = []\<rparr>)) = [] \<and>
   body (snd (serve (NewServer 8080 ''http://127.0.0.1:39741'' ''tinyllama'')
       \<lparr>clock = 0, engine = (\<lambda>m u. Unreachable), contacted = []\<rparr>
       \<lparr>Method = ''GET'', URLPath = ''/v1/models'', ReqBody = []\<rparr>)) =
     [JModelList \<lparr>ListObject = ''list'',
        Data = [\<lparr>ID = ''tinyllama'', Object = ''model'', Created = 0, OwnedBy = ''local''\<rparr>]\<rparr>]"
  by (simp add: serve_models NewServer_def)

text \<open>
  Claim C10, amended. The handler of \<^verbatim>\<open>/v1/models\<close> checks no method and no method is
  answered with 405. An OPTIONS request is answered by the CORS wrapper with 204 and no
  body. A HEAD request is answered with status 200 and the headers a GET receives, but
  without a body. Every other method receives the very answer a GET receives: status
  200 with the one-entry listing.
\<close>

theorem models_any_method:
  "URLPath r = ''/v1/models'' \<Longrightarrow>
     (if Method r = ''OPTIONS''
      then status (snd (serve s wd r)) = Some 204 \<and> body (snd (serve s wd r)) = []
      else if Method r = ''HEAD''
      then fst (serve s wd r) = wd \<and>
           status (snd (serve s wd r)) = Some 200 \<and>
           sent (snd (serve s wd r)) = sent (snd (serve s wd (r\<lparr>Method := ''GET''\<rparr>))) \<and>
           body (snd (serve s wd r)) = []
      else serve s wd r = serve s wd (r\<lparr>Method := ''GET''\<rparr>) \<and>
           fst (serve s wd r) = wd \<and>
           status (snd (serve s wd r)) = Some 200 \<and>
           body (snd (serve s wd r)) =
             [JModelList \<lparr>ListObject = ''list'',
                Data = [\<lparr>ID = modelName s, Object = ''model'', Created = clock wd,
                         OwnedBy = ''local''\<rparr>]\<rparr>])"
proof -
  assume route: "URLPath r = ''/v1/models''"
  have get: "serve s wd (r\<lparr>Method := ''GET''\<rparr>) =
     (wd, \<lparr>Header = corsHeaders(''Content-Type'' \<mapsto> ''application/json''),
           status = Some 200,
           sent = corsHeaders(''Content-Type'' \<mapsto> ''application/json''),
           body = [JModelList \<lparr>ListObject = ''list'',
                     Data = [\<lparr>ID = modelName s, Object = ''model'', Created = clock wd,
                              OwnedBy = ''local''\<rparr>]\<rparr>],
           head = False\<rparr>)"
    using route by (simp add: serve_models)
  show ?thesis
  proof (cases "Method r = ''OPTIONS''")
    case True
    with route show ?thesis
      by (simp add: serve_options corsRoutes_models)
  next
    case False
    with route show ?thesis
      by (simp add: serve_models get)
  qed
qed

theorem models_any_method_witness:
  "status (snd (serve (NewServer 8080 ''http://127.0.0.1:39741'' ''tinyllama'')
       \<lparr>clock = 0, engine = (\<lambda>m u. Unreachable), contacted = []\<rparr>
       \<lparr>Method = ''DELETE'', URLPath = ''/v1/models'', ReqBody = []\<rparr>)) = Some 200 \<and>
   body (snd (serve (NewServer 8080 ''http://127.0.0.1:39741'' ''tinyllama'')
       \<lparr>clock = 0, engine = (\<lambda>m u. Unreachable), contacted = []\<rparr>
       \<lparr>Method = ''DELETE'', URLPath = ''/v1/models'', ReqBody = []\<rparr>)) =
     [JModelList \<lparr>ListObject = ''list'',
        Data = [\<lparr>ID = ''tinyllama'', Object = ''model'', Created = 0, OwnedBy = ''local''\<rparr>]\<rparr>]"
proof -
  have name: "modelName (NewServer 8080 ''http://127.0.0.1:39741'' ''tinyllama'') = ''tinyllama''"
    by (simp add: NewServer_def)
  from models_any_method [of "\<lparr>Method = ''DELETE'', URLPath = ''/v1/models'', ReqBody = []\<rparr>"
      "NewServer 8080 ''http://127.0.0.1:39741'' ''tinyllama''"
      "\<lparr>clock = 0, engine = (\<lambda>m u. Unreachable), contacted = []\<rparr>"]
  have "status (snd (serve (NewServer 8080 ''http://127.0.0.1:39741'' ''tinyllama'')
       \<lparr>clock = 0, engine = (\<lambda>m u. Unreachable), contacted = []\<rparr>
       \<lparr>Method = ''DELETE'', URLPath = ''/v1/models'', ReqBody = []\<rparr>)) = Some 200 \<and>
     body (snd (serve (NewServer 8080 ''http://127.0.0.1:39741'' ''tinyllama'')
       \<lparr>clock = 0, engine = (\<lambda>m u. Unreachable), contacted = []\<rparr>
       \<lparr>Method = ''DELETE'', URLPath = ''/v1/models'', ReqBody = []\<rparr>)) =
     [JModelList \<lparr>ListObject = ''list'',
        Data = [\<lparr>ID = modelName (NewServer 8080 ''http://127.0.0.1:39741'' ''tinyllama''),
                 Object = ''model'', Created = 0, OwnedBy = ''local''\<rparr>]\<rparr>]"
    by auto
  with name show ?thesis by simp
qed

section \<open>Properties of the supervisor\<close>

subsection \<open>The internal endpoint\<close>

lemma Sprintf_d_BackendPort: "Sprintf_d 39741 = ''39741''"
  by (simp add: Sprintf_d_def digits.simps)

text \<open>
  Claim C9, as stated, fails: the run command copies the \<^verbatim>\<open>-port\<close> flag into the
  configuration unchecked, so \<^verbatim>\<open>-port 39741\<close> makes the external port equal to the
  internal one.
\<close>

theorem port_collision_counterexample:
  "Port (cmdRun_config ''/home/u''
       \<lparr>flag_port = Some 39741, flag_context = None, flag_quant = None, flag_verbose = None\<rparr>) =
   BackendPort (cmdRun_config ''/home/u''
       \<lparr>flag_port = Some 39741, flag_context = None, flag_quant = None, flag_verbose = None\<rparr>)"
  by (simp add: cmdRun_config_def New_def Let_def config_BackendPort_def)

text \<open>
  Claim C9, amended. For every configuration the run command builds, \<open>BackendURL\<close> is
  the loopback endpoint on the fixed internal port 39741, whatever the \<^verbatim>\<open>-port\<close> flag
  is; the internal port equals the external one exactly when the user passes
  \<^verbatim>\<open>-port 39741\<close>.
\<close>

theorem BackendURL_fixed_port:
  "BackendURL (backend_New (cmdRun_config home fl)) = ''http://127.0.0.1:39741'' \<and>
   BackendPort (cmdRun_config home fl) = 39741 \<and>
   (Port (cmdRun_config home fl) = BackendPort (cmdRun_config home fl)) =
     (flag_port fl = Some 39741)"
  by (auto simp add: BackendURL_def backend_New_def cmdRun_config_def New_def Let_def
      config_BackendPort_def DefaultPort_def Sprintf_d_BackendPort split: option.splits)

subsection \<open>WaitReady\<close>

text \<open>
  The process handle after \<open>Start\<close>. \<open>Start\<close> leaves the handle's process state unset,
  and \<open>WaitReady\<close> never sets it; with the state unset the loop cannot return the
  process-exited error, whatever has become of the child, and when the health endpoint
  never answers 200 it runs until the deadline and returns the not-ready error.
\<close>

lemma Start_leaves_handle_unset:
  "Start sys m goos modelPath = (sys1, m1, e) \<Longrightarrow> \<exists>c. cmd m1 = Some c \<and> ProcessState c = None"
  by (auto simp add: Start_def Cmd_Start_def exec_Command_def Let_def split: if_splits)

lemma WaitReady_loop_handle_unset:
  "cmd m = Some c \<Longrightarrow> ProcessState c = None \<Longrightarrow>
   WaitReady_loop m hl timeout deadline now k \<noteq> Returns (Some exitedError)"
proof (induction m hl timeout deadline now k rule: WaitReady_loop.induct)
  case (1 m hl timeout deadline now k)
  show ?case
  proof (cases "now < deadline")
    case False
    then show ?thesis by (simp add: notReadyError_def exitedError_def)
  next
    case True
    show ?thesis
    proof (cases "answer hl k = Status StatusOK")
      case True
      with \<open>now < deadline\<close> show ?thesis by simp
    next
      case False
      with \<open>now < deadline\<close> "1.prems" "1.IH"(1) [of c] show ?thesis
        by simp
    qed
  qed
qed

lemma WaitReady_after_Start:
  "Start sys m goos modelPath = (sys1, m1, e) \<Longrightarrow>
   WaitReady m1 hl now timeout \<noteq> Returns (Some exitedError)"
  using Start_leaves_handle_unset WaitReady_loop_handle_unset
  unfolding WaitReady_def by blast

lemma WaitReady_loop_never_healthy:
  "cmd m = Some c \<Longrightarrow> ProcessState c = None \<Longrightarrow> \<forall>j. answer hl j \<noteq> Status StatusOK \<Longrightarrow>
   WaitReady_loop m hl timeout deadline now k = Returns (Some (notReadyError timeout))"
proof (induction m hl timeout deadline now k rule: WaitReady_loop.induct)
  case (1 m hl timeout deadline now k)
  show ?case
  proof (cases "now < deadline")
    case False
    then show ?thesis by simp
  next
    case True
    from "1.prems"(3) have unhealthy: "answer hl k \<noteq> Status StatusOK"
      by blast
    with True "1.prems" "1.IH"(1) [of c] show ?thesis
      by simp
  qed
qed

text \<open>
  What the check in the loop does when the handle's process state is set: if the loop
  is entered and the first health request does not answer 200, a state that reports
  exited gives the process-exited error. When the deadline has passed by the loop's
  first clock reading, the not-ready error is returned without a poll.
\<close>

lemma WaitReady_handle_reports_exit:
  "int (startup hl) < timeout \<Longrightarrow> cmd m = Some c \<Longrightarrow> ProcessState c = Some ps \<Longrightarrow> Exited ps \<Longrightarrow>
   answer hl 0 \<noteq> Status 200 \<Longrightarrow> WaitReady m hl now timeout = Returns (Some exitedError)"
  by (simp add: WaitReady_def StatusOK_def)

lemma WaitReady_deadline_passed:
  "timeout \<le> int (startup hl) \<Longrightarrow> WaitReady m hl now timeout = Returns (Some (notReadyError timeout))"
  by (simp add: WaitReady_def)

lemma started_manager_eq:
  "cmd started_manager =
     Some \<lparr>Path = BackendBinaryPath ''linux'' (New ''/home/u''),
           Args = [''-m'', ''/m.gguf'', ''--port'', Sprintf_d (BackendPort (New ''/home/u'')),
                   ''-c'', Sprintf_d (CtxSize (New ''/home/u'')), ''--host'', ''127.0.0.1''],
           Dir = BinDir (New ''/home/u''), Discard = True,
           Process = Some 1, ProcessState = None\<rparr>"
  by (simp add: started_manager_def Start_def Cmd_Start_def exec_Command_def idle_system_def
      backend_New_def Let_def New_def)

lemma crashed_system_child: "procs crashed_system 1 = Ended (ExitStatus 1)"
  by (simp add: crashed_system_def)

lemma crashed_system_child_Suc: "procs crashed_system (Suc 0) = Ended (ExitStatus 1)"
  using crashed_system_child by simp

text \<open>
  Claim C1, at the supervisor whose engine has crashed. The child has ended with exit
  status 1 and its health endpoint never answers; the manager is the one \<open>Start\<close>
  returned. For every clock reading and every timeout, \<open>WaitReady\<close> returns the
  not-ready (timeout) error, which is not the process-exited error.
\<close>

theorem WaitReady_crash_reported_as_timeout:
  "procs crashed_system 1 = Ended (ExitStatus 1) \<and>
   WaitReady started_manager dead_engine now timeout = Returns (Some (notReadyError timeout)) \<and>
   notReadyError timeout \<noteq> exitedError"
proof -
  obtain c where c: "cmd started_manager = Some c" "ProcessState c = None"
    using started_manager_eq by simp
  have unhealthy: "\<forall>j. answer dead_engine j \<noteq> Status StatusOK"
    by (simp add: dead_engine_def)
  have "WaitReady started_manager dead_engine now timeout = Returns (Some (notReadyError timeout))"
    unfolding WaitReady_def using c unhealthy by (rule WaitReady_loop_never_healthy)
  moreover have "notReadyError timeout \<noteq> exitedError"
    by (simp add: notReadyError_def exitedError_def)
  ultimately show ?thesis using crashed_system_child by simp
qed

subsection \<open>Stop\<close>

lemma orphaned_system_child: "procs orphaned_system (Suc 0) = Ended (ExitStatus 1)"
  using crashed_system_child_Suc by (simp add: orphaned_system_def)

text \<open>
  Claim C7, as stated, fails in its second case. When the engine has exited on its own
  and was not waited for, \<open>Stop\<close> returns, but not with the state it was given: it has
  reaped the child and stored its exit status in the process handle. And when a
  descendant of the exited engine still holds its output pipe, \<open>Stop\<close> does not return.
\<close>

theorem Stop_after_exit_counterexample:
  "Stop crashed_system started_manager \<noteq> None \<and>
   Stop crashed_system started_manager \<noteq> Some (crashed_system, started_manager) \<and>
   map_option (\<lambda>c. ProcessState c) (cmd started_manager) = Some None \<and>
   map_option (\<lambda>r. map_option (\<lambda>c. ProcessState c) (cmd (snd r)))
       (Stop crashed_system started_manager) = Some (Some (Some (ExitStatus 1))) \<and>
   Stop orphaned_system started_manager = None"
proof -
  have before: "map_option (\<lambda>c. ProcessState c) (cmd started_manager) = Some None"
    by (simp add: started_manager_eq)
  have quiet: "\<not> pipe_held crashed_system (Suc 0)"
    by (simp add: crashed_system_def started_system_def Start_def Cmd_Start_def
        exec_Command_def idle_system_def Let_def)
  have after: "map_option (\<lambda>r. map_option (\<lambda>c. ProcessState c) (cmd (snd r)))
       (Stop crashed_system started_manager) = Some (Some (Some (ExitStatus 1)))"
    by (simp add: Stop_def Cmd_Wait_def Kill_def started_manager_eq crashed_system_child_Suc quiet)
  have returns: "Stop crashed_system started_manager \<noteq> None"
    using after by auto
  have changed: "Stop crashed_system started_manager \<noteq> Some (crashed_system, started_manager)"
  proof
    assume "Stop crashed_system started_manager = Some (crashed_system, started_manager)"
    with after have "map_option (\<lambda>c. ProcessState c) (cmd started_manager) =
        Some (Some (ExitStatus 1))"
      by simp
    with before show False by simp
  qed
  have held: "pipe_held orphaned_system (Suc 0)"
    by (simp add: orphaned_system_def)
  have blocked: "Stop orphaned_system started_manager = None"
    by (simp add: Stop_def Cmd_Wait_def Kill_def started_manager_eq orphaned_system_child held)
  from returns changed before after blocked show ?thesis by blast
qed

lemma cmd_update_same: "cmd m = Some c \<Longrightarrow> m\<lparr>cmd := Some c\<rparr> = m"
  by (cases m) simp

lemma Kill_not_running: "procs (Kill sys pid) pid \<noteq> Running"
  by (simp add: Kill_def split: child.splits)

lemma Kill_pipe_held: "pipe_held (Kill sys pid) = pipe_held sys"
  by (simp add: Kill_def split: child.splits)

lemma Kill_settled: "procs sys pid \<noteq> Running \<Longrightarrow> Kill sys pid = sys"
  by (simp add: Kill_def split: child.splits)

lemma Stop_started:
  "cmd m = Some c \<Longrightarrow> Process c = Some pid \<Longrightarrow>
   Stop sys m =
     (case Cmd_Wait (Kill sys pid) c of
        None \<Rightarrow> None
      | Some (sys1, c1, e) \<Rightarrow> Some (sys1, m\<lparr>cmd := Some c1\<rparr>))"
  by (simp add: Stop_def)

lemma Cmd_Wait_returns:
  "Process c = Some pid \<Longrightarrow> \<not> (Discard c \<and> pipe_held sys pid) \<Longrightarrow>
   Cmd_Wait (Kill sys pid) c \<noteq> None"
  using Kill_not_running [of sys pid]
  by (cases "procs (Kill sys pid) pid"; cases "ProcessState c")
     (simp_all add: Cmd_Wait_def Kill_pipe_held)

text \<open>
  After a \<open>Stop\<close> that returned, the child is no longer running and either the handle
  holds a process state or the child was reaped before and no pipe is held; in such a
  state \<open>Stop\<close> changes nothing.
\<close>

lemma Stop_settled:
  "cmd m = Some c \<Longrightarrow> Process c = Some pid \<Longrightarrow> procs sys pid = Reaped \<Longrightarrow>
   ProcessState c \<noteq> None \<or> \<not> (Discard c \<and> pipe_held sys pid) \<Longrightarrow>
   Stop sys m = Some (sys, m)"
  by (cases "ProcessState c") (auto simp add: Stop_started Kill_settled Cmd_Wait_def cmd_update_same)

lemma Stop_waited:
  "cmd m = Some c \<Longrightarrow> Process c = Some pid \<Longrightarrow> ProcessState c = Some ps \<Longrightarrow>
   procs sys pid \<noteq> Running \<Longrightarrow> Stop sys m = Some (sys, m)"
  by (simp add: Stop_started Kill_settled Cmd_Wait_def cmd_update_same)

lemma Stop_twice:
  assumes "Stop sys m = Some (sys1, m1)"
  shows "Stop sys1 m1 = Some (sys1, m1)"
proof (cases "cmd m")
  case None
  with assms show ?thesis by (simp add: Stop_def)
next
  case (Some c)
  show ?thesis
  proof (cases "Process c")
    case None
    with Some assms show ?thesis by (simp add: Stop_def)
  next
    case (Some pid)
    note started = \<open>cmd m = Some c\<close> \<open>Process c = Some pid\<close>
    show ?thesis
    proof (cases "ProcessState c")
      case (Some ps)
      with started assms have "sys1 = Kill sys pid" "m1 = m"
        by (auto simp add: Stop_started Cmd_Wait_def cmd_update_same)
      with started Some Kill_not_running [of sys pid] show ?thesis
        by (simp add: Stop_waited)
    next
      case None
      show ?thesis
      proof (cases "procs (Kill sys pid) pid")
        case Running
        with Kill_not_running [of sys pid] show ?thesis by simp
      next
        case (Ended ps)
        with started None assms
        have r: "sys1 = (Kill sys pid)\<lparr>procs := (procs (Kill sys pid))(pid := Reaped)\<rparr>"
            "m1 = m\<lparr>cmd := Some (c\<lparr>ProcessState := Some ps\<rparr>)\<rparr>"
          by (auto simp add: Stop_started Cmd_Wait_def split: if_splits)
        have "Stop sys1 m1 = Some (sys1, m1)"
          by (rule Stop_waited [of m1 "c\<lparr>ProcessState := Some ps\<rparr>" pid ps])
             (simp_all add: r started)
        then show ?thesis .
      next
        case Reaped
        with started None assms
        have r: "sys1 = Kill sys pid" "m1 = m" "\<not> (Discard c \<and> pipe_held (Kill sys pid) pid)"
          by (auto simp add: Stop_started Cmd_Wait_def cmd_update_same split: if_splits)
        with started Reaped show ?thesis
          by (simp add: Stop_settled [of m c pid])
      qed
    qed
  qed
qed

text \<open>
  Claim C7, amended. \<open>Stop\<close> has no error result and no step that can panic. When the
  engine was never started (no command, or a command without a process) it returns and
  leaves the state unchanged; a second \<open>Stop\<close> right after one that returned also
  returns and leaves the state unchanged. On a started engine, running or ended,
  \<open>Stop\<close> returns whenever no descendant holds the output pipe of a command with
  discarded output. When the child has ended and was not yet waited for, such a \<open>Stop\<close>
  reaps it and stores how it ended in the process handle.
\<close>

theorem Stop_safe:
  "((cmd m = None \<or> (\<exists>c. cmd m = Some c \<and> Process c = None)) \<longrightarrow> Stop sys m = Some (sys, m)) \<and>
   (\<forall>sys1 m1. Stop sys m = Some (sys1, m1) \<longrightarrow> Stop sys1 m1 = Some (sys1, m1)) \<and>
   (\<forall>c pid. cmd m = Some c \<and> Process c = Some pid \<and> \<not> (Discard c \<and> pipe_held sys pid) \<longrightarrow>
      Stop sys m \<noteq> None) \<and>
   (\<forall>c pid ps. cmd m = Some c \<and> Process c = Some pid \<and> ProcessState c = None \<and>
        procs sys pid = Ended ps \<and> \<not> (Discard c \<and> pipe_held sys pid) \<longrightarrow>
      Stop sys m = Some (sys\<lparr>procs := (procs sys)(pid := Reaped)\<rparr>,
                         m\<lparr>cmd := Some (c\<lparr>ProcessState := Some ps\<rparr>)\<rparr>))"
proof (intro conjI allI impI)
  assume "cmd m = None \<or> (\<exists>c. cmd m = Some c \<and> Process c = None)"
  then show "Stop sys m = Some (sys, m)"
    by (auto simp add: Stop_def)
next
  fix sys1 m1
  assume "Stop sys m = Some (sys1, m1)"
  then show "Stop sys1 m1 = Some (sys1, m1)"
    by (rule Stop_twice)
next
  fix c pid
  assume "cmd m = Some c \<and> Process c = Some pid \<and> \<not> (Discard c \<and> pipe_held sys pid)"
  then show "Stop sys m \<noteq> None"
    using Cmd_Wait_returns [of c pid sys] by (auto simp add: Stop_started)
next
  fix c pid ps
  assume a: "cmd m = Some c \<and> Process c = Some pid \<and> ProcessState c = None \<and>
      procs sys pid = Ended ps \<and> \<not> (Discard c \<and> pipe_held sys pid)"
  then have "Kill sys pid = sys"
    by (simp add: Kill_def)
  with a show "Stop sys m = Some (sys\<lparr>procs := (procs sys)(pid := Reaped)\<rparr>,
      m\<lparr>cmd := Some (c\<lparr>ProcessState := Some ps\<rparr>)\<rparr>)"
    by (simp add: Stop_started Cmd_Wait_def)
qed

theorem Stop_safe_witness:
  "Stop idle_system (backend_New (New ''/home/u'')) =
     Some (idle_system, backend_New (New ''/home/u'')) \<and>
   (\<exists>sys1 m1. Stop crashed_system started_manager = Some (sys1, m1) \<and>
      Stop sys1 m1 = Some (sys1, m1) \<and>
      map_option (\<lambda>c. ProcessState c) (cmd m1) = Some (Some (ExitStatus 1)))"
proof -
  have never: "cmd (backend_New (New ''/home/u'')) = None"
    by (simp add: backend_New_def)
  obtain c where c: "cmd started_manager = Some c" "Process c = Some 1" "ProcessState c = None"
    using started_manager_eq by simp
  have quiet: "\<not> (Discard c \<and> pipe_held crashed_system 1)"
    by (simp add: crashed_system_def started_system_def Start_def Cmd_Start_def
        exec_Command_def idle_system_def Let_def)
  from Stop_safe [of "backend_New (New ''/home/u'')" idle_system] never
  have first: "Stop idle_system (backend_New (New ''/home/u'')) =
      Some (idle_system, backend_New (New ''/home/u''))"
    by blast
  from Stop_safe [of started_manager crashed_system] c crashed_system_child quiet
  have reap: "Stop crashed_system started_manager =
      Some (crashed_system\<lparr>procs := (procs crashed_system)(1 := Reaped)\<rparr>,
            started_manager\<lparr>cmd := Some (c\<lparr>ProcessState := Some (ExitStatus 1)\<rparr>)\<rparr>)"
    by blast
  from Stop_safe [of started_manager crashed_system] reap
  have again: "Stop (crashed_system\<lparr>procs := (procs crashed_system)(1 := Reaped)\<rparr>)
        (started_manager\<lparr>cmd := Some (c\<lparr>ProcessState := Some (ExitStatus 1)\<rparr>)\<rparr>) =
      Some (crashed_system\<lparr>procs := (procs crashed_system)(1 := Reaped)\<rparr>,
            started_manager\<lparr>cmd := Some (c\<lparr>ProcessState := Some (ExitStatus 1)\<rparr>)\<rparr>)"
    by blast
  from first reap again show ?thesis by simp
qed

section \<open>Properties of provisioning\<close>

lemma EnsureBackend_present:
  "files h (BackendBinaryPath (GOOS env) (cfg m)) \<noteq> None \<Longrightarrow> EnsureBackend env m h = (h, None)"
  by (simp add: EnsureBackend_def Let_def)

text \<open>
  Claim C8. Whenever a file exists at the engine binary's path, \<open>EnsureBackend\<close> returns
  success and the host as it was: no file is touched, nothing is requested from the
  network and nothing is printed.
\<close>

theorem EnsureBackend_noop_when_present:
  "files h (BackendBinaryPath (GOOS env) (cfg m)) \<noteq> None \<Longrightarrow>
     EnsureBackend env m h = (h, None) \<and>
     files (fst (EnsureBackend env m h)) = files h \<and>
     trace (fst (EnsureBackend env m h)) = trace h"
  by (simp add: EnsureBackend_present)

theorem EnsureBackend_noop_when_present_witness:
  "EnsureBackend broken_env (backend_New (New ''/home/u''))
     \<lparr>files = [''/home/u/.llmgw/bin/llama-server'' \<mapsto> \<lparr>content = ''ELF'', mode = 493\<rparr>],
      trace = []\<rparr>
   = (\<lparr>files = [''/home/u/.llmgw/bin/llama-server'' \<mapsto> \<lparr>content = ''ELF'', mode = 493\<rparr>],
       trace = []\<rparr>, None)"
  using EnsureBackend_noop_when_present [of
      "\<lparr>files = [''/home/u/.llmgw/bin/llama-server'' \<mapsto> \<lparr>content = ''ELF'', mode = 493\<rparr>],
        trace = []\<rparr>"
      broken_env "backend_New (New ''/home/u'')"]
  by (simp add: broken_env_def backend_New_def New_def BackendBinaryPath_def Join_def
      AppName_def Let_def)

text \<open>
  \<open>DownloadFile\<close> writes to a temporary path and renames: when it fails, whatever was
  at the destination is still there, and nothing new is.
\<close>

lemma DownloadFile_failure_keeps_dest:
  "DownloadFile env h url destPath label = (h1, Some e) \<Longrightarrow> files h1 destPath = files h destPath"
  by (auto simp add: DownloadFile_def Let_def said_def create_write_def Remove_def
      split: if_splits download.splits option.splits)

lemma bin_path: "BackendBinaryPath ''linux'' (New ''/home/u'') = ''/home/u/.llmgw/bin/llama-server''"
  by (simp add: New_def BackendBinaryPath_def Join_def AppName_def Let_def)

lemma find_broken:
  "findRelease broken_env h =
     (said (HttpGet releaseURL) h, Inr (''https://host/llama.zip'', ''llama-b1-bin-ubuntu-x64.zip''))"
  by (simp add: findRelease_def broken_env_def StatusOK_def targetAssetHints_def Let_def
      ToLower_def isArchive_def HasSuffix_def)

lemma broken_run:
  "EnsureBackend broken_env (backend_New (New ''/home/u'')) empty_host =
     (\<lparr>files = [''/home/u/.llmgw/bin/llama-b1-bin-ubuntu-x64.zip'' \<mapsto>
                  \<lparr>content = ''PK-archive-bytes'', mode = 420\<rparr>,
                ''/home/u/.llmgw/bin/llama-server'' \<mapsto>
                  \<lparr>content = ''ELF-first-half'', mode = 420\<rparr>],
       trace = [Info ''Downloading llama.cpp inference server...'', HttpGet releaseURL,
                HttpGet ''https://host/llama.zip'']\<rparr>,
      Some (Wrapf ''extracting llama.cpp: %w'' [] (LibError ''read'')))"
  apply (simp add: EnsureBackend_def Let_def bin_path backend_New_def find_broken)
  apply (simp add: broken_env_def empty_host_def said_def DownloadFile_def StatusOK_def Let_def
      create_write_def Remove_def Rename_def New_def Join_def AppName_def
      extractBinaries_def extractFromZip_def extractZipFile_def HasSuffix_def ToLower_def Base_def
      BackendBinaryPath_def)
  done

text \<open>
  Claim C2, at the run \<open>broken_env\<close> on a host with no files. No file is at the binary's
  path before the call. The call fails with the extraction error, and afterwards the
  binary's path holds the bytes that were written before the archive member broke off;
  a second call then finds that file and reports success.
\<close>

theorem EnsureBackend_leaves_partial_binary:
  "files empty_host (BackendBinaryPath (GOOS broken_env) (New ''/home/u'')) = None \<and>
   snd (EnsureBackend broken_env (backend_New (New ''/home/u'')) empty_host) =
     Some (Wrapf ''extracting llama.cpp: %w'' [] (LibError ''read'')) \<and>
   files (fst (EnsureBackend broken_env (backend_New (New ''/home/u'')) empty_host))
       (BackendBinaryPath (GOOS broken_env) (New ''/home/u'')) =
     Some \<lparr>content = ''ELF-first-half'', mode = 420\<rparr> \<and>
   EnsureBackend broken_env (backend_New (New ''/home/u''))
       (fst (EnsureBackend broken_env (backend_New (New ''/home/u'')) empty_host)) =
     (fst (EnsureBackend broken_env (backend_New (New ''/home/u'')) empty_host), None)"
proof -
  have g: "GOOS broken_env = ''linux''" by (simp add: broken_env_def)
  have c: "cfg (backend_New (New ''/home/u'')) = New ''/home/u''" by (simp add: backend_New_def)
  have e: "files empty_host p = None" for p by (simp add: empty_host_def)
  show ?thesis
    by (simp add: broken_run g bin_path e EnsureBackend_present c)
qed

end
